theory Spec2Isabelle
  imports Main "HOL-Library.AList"
begin

section \<open>UsersService: the account service over a document store and a cache\<close>

text \<open>
  The development embeds \<^verbatim>\<open>src/services/UsersService.ts\<close>. Every method of the class
  is an asynchronous sequence of awaited calls on two injected clients, the document
  store (\<^verbatim>\<open>this.db.users\<close>) and the cache (\<^verbatim>\<open>this.redisClient\<close>). A method is modelled
  as a function from the world before the call to the response and the world after it.
  The world holds the users collection, the cache, the timestamp source, the source of
  automatic document ids, and the list of client calls issued so far, in order.
  The method \<^verbatim>\<open>getActivityFeed\<close> reads three other collections and nothing of the
  users collection or the cache; it is left out.
\<close>

subsection \<open>Data\<close>

text \<open>
  A document is a JavaScript object: a finite map from property names to values. Reading
  a property that is absent gives \<^verbatim>\<open>undefined\<close>, which is \<open>None\<close> here.
\<close>

datatype fval = Str string | Time nat

type_synonym document = "string \<rightharpoonup> fval"

text \<open>
  Modelled from the spec: the entity type \<^verbatim>\<open>User\<close> of \<^verbatim>\<open>types/entities/User\<close>, which
  is not among the sources. An account has an email, a password secret and arbitrary
  further profile fields. \<^verbatim>\<open>login\<close> takes the object type
  \<^verbatim>\<open>{ email: string; password: string }\<close>; \<^verbatim>\<open>createUser\<close> takes a \<^verbatim>\<open>User\<close>, whose
  password the code reads under the cast \<^verbatim>\<open>as string\<close>.
\<close>

record Credentials =
  email :: string
  password :: string

record User = Credentials +
  profile :: document

text \<open>The object spread \<^verbatim>\<open>...userData\<close> of a \<^verbatim>\<open>User\<close>.\<close>

definition spread :: "User \<Rightarrow> document" where
  "spread userData =
     (profile userData)(''email'' \<mapsto> Str (email userData),
                       ''password'' \<mapsto> Str (password userData))"

text \<open>
  What \<^verbatim>\<open>JSON.parse\<close> can return: any JSON value, not only an array of objects.
\<close>

datatype json =
    JNull
  | JBool bool
  | JNum int
  | JStr string
  | JArr "json list"
  | JObj "(string \<times> json) list"

text \<open>
  The payloads the methods put into the field \<^verbatim>\<open>data\<close> of a response. \<open>Listing\<close> is
  the array that \<^verbatim>\<open>getUsers\<close> builds from the store, \<open>Parsed\<close> is whatever it read
  back from the cache.
\<close>

datatype payload =
    Listing "document list"
  | Parsed json
  | LoginData document string
  | Profile document

text \<open>The response envelope \<^verbatim>\<open>IResBody\<close>: status, message and optional data.\<close>

record IResBody =
  status :: nat
  message :: string
  data :: "payload option"

text \<open>
  The calls a method issues on its two clients. \<open>StoreQuery f v\<close> is
  \<^verbatim>\<open>users.where(f, '==', v).get()\<close>, \<open>StoreGetAll\<close> is \<^verbatim>\<open>users.get()\<close>, and the
  others are the calls on one document reference and on the cache client.
\<close>

datatype event =
    StoreQuery string fval
  | StoreGetAll
  | StoreGet string
  | StoreSet string document
  | StoreUpdate string document
  | StoreDelete string
  | CacheGet string
  | CacheSet string string nat
  | CacheDel string

fun is_store_read :: "event \<Rightarrow> bool" where
  "is_store_read (StoreQuery f v) = True"
| "is_store_read StoreGetAll = True"
| "is_store_read (StoreGet i) = True"
| "is_store_read e = False"

fun is_store_write :: "event \<Rightarrow> bool" where
  "is_store_write (StoreSet i d) = True"
| "is_store_write (StoreUpdate i d) = True"
| "is_store_write (StoreDelete i) = True"
| "is_store_write e = False"

fun is_cache_call :: "event \<Rightarrow> bool" where
  "is_cache_call (CacheGet k) = True"
| "is_cache_call (CacheSet k v ex) = True"
| "is_cache_call (CacheDel k) = True"
| "is_cache_call e = False"

text \<open>
  The world. \<open>store\<close> is the users collection, a list of documents with their ids in
  the order in which a query returns them. \<open>cache\<close> maps a key to its value and the
  expiry in seconds it was written with; an entry that has lapsed is an absent key. \<open>clock\<close> gives the successive readings of
  \<^verbatim>\<open>firestoreTimestamp.now()\<close> and \<open>ticks\<close> counts the readings taken; \<open>ids\<close> and
  \<open>allocated\<close> do the same for the ids of \<^verbatim>\<open>users.doc()\<close>. \<open>calls\<close> lists the
  client calls issued so far, oldest first.
\<close>

record world =
  store :: "(string \<times> document) list"
  cache :: "string \<rightharpoonup> (string \<times> nat)"
  clock :: "nat \<Rightarrow> nat"
  ticks :: nat
  ids :: "nat \<Rightarrow> string"
  allocated :: nat
  calls :: "event list"

text \<open>A fault is an exception that a client or \<^verbatim>\<open>JSON.parse\<close> throws and no method catches.\<close>

datatype fault = SyntaxError | DocumentMissing

subsection \<open>The clients\<close>

definition issue :: "event \<Rightarrow> world \<Rightarrow> world" where
  "issue e w = w\<lparr>calls := calls w @ [e]\<rparr>"

text \<open>\<^verbatim>\<open>users.where(f, '==', v).get()\<close>: the documents whose field equals the value.\<close>

definition users_where :: "string \<Rightarrow> fval \<Rightarrow> world \<Rightarrow> (string \<times> document) list \<times> world" where
  "users_where f v w = (filter (\<lambda>(i, d). d f = Some v) (store w), issue (StoreQuery f v) w)"

text \<open>\<^verbatim>\<open>users.get()\<close>: every document of the collection.\<close>

definition users_get :: "world \<Rightarrow> (string \<times> document) list \<times> world" where
  "users_get w = (store w, issue StoreGetAll w)"

text \<open>
  \<^verbatim>\<open>users.doc(id).get()\<close>: the snapshot of one document. \<^verbatim>\<open>exists\<close> is whether the result
  is \<open>Some\<close>, and \<^verbatim>\<open>data()\<close> is the result itself (\<^verbatim>\<open>undefined\<close> when there is none).
\<close>

definition doc_get :: "string \<Rightarrow> world \<Rightarrow> document option \<times> world" where
  "doc_get i w = (map_of (store w) i, issue (StoreGet i) w)"

text \<open>\<^verbatim>\<open>users.doc()\<close>: a reference with the next automatic id; no call goes to the store.\<close>

definition users_doc :: "world \<Rightarrow> string \<times> world" where
  "users_doc w = (ids w (allocated w), w\<lparr>allocated := Suc (allocated w)\<rparr>)"

text \<open>
  \<^verbatim>\<open>ref.set(d)\<close> writes the whole document, creating it when it is new. Where a new
  document comes in the order of later queries is the affair of the store; here it comes
  last, and no property below depends on it.
\<close>

definition doc_set :: "string \<Rightarrow> document \<Rightarrow> world \<Rightarrow> world" where
  "doc_set i d w = issue (StoreSet i d) (w\<lparr>store := AList.update i d (store w)\<rparr>)"

text \<open>
  \<^verbatim>\<open>ref.update(d)\<close> overwrites the given fields of an existing document and keeps the
  others; on a missing document the store rejects the call.
\<close>

definition doc_update :: "string \<Rightarrow> document \<Rightarrow> world \<Rightarrow> fault option \<times> world" where
  "doc_update i d w =
     (case map_of (store w) i of
        None \<Rightarrow> (Some DocumentMissing, issue (StoreUpdate i d) w)
      | Some old \<Rightarrow>
          (None, issue (StoreUpdate i d) (w\<lparr>store := AList.update i (old ++ d) (store w)\<rparr>)))"

text \<open>\<^verbatim>\<open>ref.delete()\<close> removes the document; on a missing one it does nothing.\<close>

definition doc_delete :: "string \<Rightarrow> world \<Rightarrow> world" where
  "doc_delete i w = issue (StoreDelete i) (w\<lparr>store := AList.delete i (store w)\<rparr>)"

text \<open>\<^verbatim>\<open>firestoreTimestamp.now()\<close>: the next reading of the timestamp source.\<close>

definition timestamp_now :: "world \<Rightarrow> nat \<times> world" where
  "timestamp_now w = (clock w (ticks w), w\<lparr>ticks := Suc (ticks w)\<rparr>)"

text \<open>The cache client: \<^verbatim>\<open>get\<close>, \<^verbatim>\<open>set\<close> with the option \<^verbatim>\<open>EX\<close>, and \<^verbatim>\<open>del\<close>.\<close>

definition redis_get :: "string \<Rightarrow> world \<Rightarrow> string option \<times> world" where
  "redis_get k w = (map_option fst (cache w k), issue (CacheGet k) w)"

definition redis_set :: "string \<Rightarrow> string \<Rightarrow> nat \<Rightarrow> world \<Rightarrow> world" where
  "redis_set k v ex w = issue (CacheSet k v ex) (w\<lparr>cache := (cache w)(k \<mapsto> (v, ex))\<rparr>)"

definition redis_del :: "string \<Rightarrow> world \<Rightarrow> world" where
  "redis_del k w = issue (CacheDel k) (w\<lparr>cache := (cache w)(k := None)\<rparr>)"

subsection \<open>The methods of UsersService\<close>

text \<open>
  The helpers of \<^verbatim>\<open>utils/password\<close>, \<^verbatim>\<open>utils/formatData\<close> and \<^verbatim>\<open>utils/jwt\<close> are not
  among the sources; each method takes the ones it calls as parameters, and so do the
  two methods of \<^verbatim>\<open>JSON\<close>. A value read back from a stored document is passed on as it
  is, \<open>None\<close> for \<^verbatim>\<open>undefined\<close>, since the casts \<^verbatim>\<open>as string\<close> check nothing at run time.
\<close>

definition resp :: "nat \<Rightarrow> string \<Rightarrow> IResBody" where
  "resp s m = \<lparr>status = s, message = m, data = None\<rparr>"

definition resp_data :: "nat \<Rightarrow> string \<Rightarrow> payload \<Rightarrow> IResBody" where
  "resp_data s m p = \<lparr>status = s, message = m, data = Some p\<rparr>"

text \<open>The object literal \<^verbatim>\<open>{ id: i, ...formattedUser }\<close>: a spread property overrides \<^verbatim>\<open>id\<close>.\<close>

definition with_id :: "string \<Rightarrow> document \<Rightarrow> document" where
  "with_id i formattedUser = [''id'' \<mapsto> Str i] ++ formattedUser"

definition createUser :: "(string \<Rightarrow> string) \<Rightarrow> User \<Rightarrow> world \<Rightarrow> IResBody \<times> world" where
  "createUser encryptPassword userData w =
     (let (usersQuerySnapshot, w1) = users_where ''email'' (Str (email userData)) w in
      if usersQuerySnapshot = [] then
        let (userRef, w2) = users_doc w1;
            hashed = encryptPassword (password userData);
            (createdAt, w3) = timestamp_now w2;
            (updatedAt, w4) = timestamp_now w3;
            w5 = doc_set userRef
                   ((spread userData)(''password'' \<mapsto> Str hashed,
                                      ''role'' \<mapsto> Str ''member'',
                                      ''createdAt'' \<mapsto> Time createdAt,
                                      ''updatedAt'' \<mapsto> Time updatedAt)) w4
        in (resp 201 ''User created successfully!'', w5)
      else (resp 409 ''User already exists'', w1))"

text \<open>
  The test \<^verbatim>\<open>if (cachedUsers)\<close> on the result of the cache read, a string or \<^verbatim>\<open>null\<close>:
  \<^verbatim>\<open>null\<close> and the empty string are false, every other string is true.
\<close>

fun truthy :: "string option \<Rightarrow> bool" where
  "truthy None = False"
| "truthy (Some s) = (s \<noteq> [])"

text \<open>The loop of \<^verbatim>\<open>getUsers\<close> over the documents, pushing onto \<^verbatim>\<open>users\<close>.\<close>

fun push_users :: "(document option \<Rightarrow> document) \<Rightarrow> (string \<times> document) list \<Rightarrow>
    document list \<Rightarrow> document list" where
  "push_users formatUserData [] users = users"
| "push_users formatUserData ((i, d) # docs) users =
     push_users formatUserData docs (users @ [with_id i (formatUserData (Some d))])"

definition getUsers :: "(document option \<Rightarrow> document) \<Rightarrow> (document list \<Rightarrow> string) \<Rightarrow>
    (string \<Rightarrow> json option) \<Rightarrow> world \<Rightarrow> (fault + IResBody) \<times> world" where
  "getUsers formatUserData stringify parse w =
     (let cacheKey = ''users'';
          (cachedUsers, w1) = redis_get cacheKey w in
      if truthy cachedUsers then
        (case parse (the cachedUsers) of
           None \<Rightarrow> (Inl SyntaxError, w1)
         | Some users \<Rightarrow>
             (Inr (resp_data 200 ''Users retrieved successfully!'' (Parsed users)), w1))
      else
        let (usersQuerySnapshot, w2) = users_get w1;
            users = push_users formatUserData usersQuerySnapshot [];
            w3 = redis_set cacheKey (stringify users) 3600 w2
        in (Inr (resp_data 200 ''Users retrieved successfully!'' (Listing users)), w3))"

definition login :: "(string \<Rightarrow> fval option \<Rightarrow> bool) \<Rightarrow> (document option \<Rightarrow> document) \<Rightarrow>
    (string \<Rightarrow> fval option \<Rightarrow> string) \<Rightarrow> Credentials \<Rightarrow> world \<Rightarrow> IResBody \<times> world" where
  "login comparePasswords formatUserData generateToken userData w =
     (let (usersQuerySnapshot, w1) = users_where ''email'' (Str (email userData)) w in
      case usersQuerySnapshot of
        [] \<Rightarrow> (resp 401 ''Unauthorized'', w1)
      | (i, d) # rest \<Rightarrow>
          let isPasswordValid = comparePasswords (password userData) (d ''password'') in
          if isPasswordValid then
            let formattedUser = formatUserData (Some d) in
            (resp_data 200 ''User login successfully!''
               (LoginData formattedUser (generateToken i (formattedUser ''role''))), w1)
          else (resp 401 ''Unauthorized!'', w1))"

definition getUserById :: "(document option \<Rightarrow> document) \<Rightarrow> string \<Rightarrow> world \<Rightarrow>
    IResBody \<times> world" where
  "getUserById formatUserData userId w =
     (let (userDoc, w1) = doc_get userId w;
          formattedUser = formatUserData userDoc
      in (resp_data 200 ''User retrieved successfully!'' (Profile (with_id userId formattedUser)),
          w1))"

definition updateUserById :: "(document option \<Rightarrow> document) \<Rightarrow> string \<Rightarrow> document \<Rightarrow> world \<Rightarrow>
    (fault + IResBody) \<times> world" where
  "updateUserById formatUserData userId userData w =
     (let (userDoc, w1) = doc_get userId w in
      if userDoc = None then (Inr (resp 404 ''User not found''), w1)
      else
        let (now, w2) = timestamp_now w1;
            (failed, w3) = doc_update userId (userData(''updatedAt'' \<mapsto> Time now)) w2
        in case failed of
             Some f \<Rightarrow> (Inl f, w3)
           | None \<Rightarrow>
               let (updatedUser, w4) = doc_get userId w3;
                   formattedUser = formatUserData updatedUser
               in (Inr (resp_data 200 ''User updated successfully!''
                          (Profile (with_id userId formattedUser))), w4))"

definition deleteUserById :: "string \<Rightarrow> world \<Rightarrow> IResBody \<times> world" where
  "deleteUserById userId w =
     (let (userDoc, w1) = doc_get userId w in
      if userDoc = None then (resp 404 ''User not found'', w1)
      else
        let w2 = doc_delete userId w1;
            w3 = redis_del ''users'' w2
        in (resp 200 ''User deleted successfully!'', w3))"

definition changePassword :: "(string \<Rightarrow> string) \<Rightarrow> string \<Rightarrow> string \<Rightarrow> world \<Rightarrow>
    (fault + IResBody) \<times> world" where
  "changePassword encryptPassword userId newPassword w =
     (let (userDoc, w1) = doc_get userId w in
      if userDoc = None then (Inr (resp 404 ''User not found''), w1)
      else
        let hashedPassword = encryptPassword newPassword;
            (now, w2) = timestamp_now w1;
            (failed, w3) = doc_update userId
                             [''password'' \<mapsto> Str hashedPassword, ''updatedAt'' \<mapsto> Time now] w2
        in case failed of
             Some f \<Rightarrow> (Inl f, w3)
           | None \<Rightarrow> (Inr (resp 200 ''Password changed successfully!''), w3))"

subsection \<open>The listing slot of the cache\<close>

text \<open>
  The only method that writes the key \<^verbatim>\<open>users\<close> is \<^verbatim>\<open>getUsers\<close>, and what it writes is
  the serialization of a listing with an expiry of 3600 seconds; the only other call on
  the key is the delete of \<^verbatim>\<open>deleteUserById\<close>. So in every world that the methods reach
  from a world with a well-formed slot, the slot is well-formed: the key is absent, or it
  holds the serialization of some listing with that expiry.
\<close>

definition slot_ok :: "(document list \<Rightarrow> string) \<Rightarrow> world \<Rightarrow> bool" where
  "slot_ok stringify w =
     (case cache w ''users'' of
        None \<Rightarrow> True
      | Some (s, ex) \<Rightarrow> ex = 3600 \<and> (\<exists>users. s = stringify users))"

subsection \<open>Sample helpers and sample worlds\<close>

text \<open>
  Stand-ins for the helpers, used only to run the methods on concrete worlds: a tagging
  in place of the password hash and its check, a projection that removes the password,
  a token that spells out its two arguments, and a codec that keeps of a listing only
  the number of its entries.
\<close>

definition sample_encrypt :: "string \<Rightarrow> string" where
  "sample_encrypt p = ''#'' @ p"

definition sample_compare :: "string \<Rightarrow> fval option \<Rightarrow> bool" where
  "sample_compare p h = (h = Some (Str (sample_encrypt p)))"

definition sample_format :: "document option \<Rightarrow> document" where
  "sample_format u = (case u of None \<Rightarrow> Map.empty | Some d \<Rightarrow> d(''password'' := None))"

definition sample_token :: "string \<Rightarrow> fval option \<Rightarrow> string" where
  "sample_token i r = (case r of Some (Str s) \<Rightarrow> i @ ''/'' @ s | _ \<Rightarrow> i)"

definition sample_stringify :: "document list \<Rightarrow> string" where
  "sample_stringify us = ''['' @ concat (map (\<lambda>u. ''{}'') us) @ '']''"

fun sample_entries :: "string \<Rightarrow> json list" where
  "sample_entries (a # b # cs) =
     (if a = CHR ''{'' \<and> b = CHR ''}'' then JObj [] # sample_entries cs else [])"
| "sample_entries cs = []"

definition sample_parse :: "string \<Rightarrow> json option" where
  "sample_parse s =
     (if s = ''null'' then Some JNull
      else case s of
             [] \<Rightarrow> None
           | c # cs \<Rightarrow> if c = CHR ''['' then Some (JArr (sample_entries cs)) else None)"

definition alice :: document where
  "alice = [''email'' \<mapsto> Str ''alice@example.org'', ''password'' \<mapsto> Str ''#wonderland'',
            ''role'' \<mapsto> Str ''admin'']"

definition alice_twin :: document where
  "alice_twin = [''email'' \<mapsto> Str ''alice@example.org'', ''password'' \<mapsto> Str ''#looking-glass'',
                 ''role'' \<mapsto> Str ''member'']"

definition world0 :: world where
  "world0 = \<lparr>store = [(''u1'', alice)], cache = Map.empty, clock = (\<lambda>n. 1000 + n), ticks = 0,
             ids = (\<lambda>n. replicate (Suc n) CHR ''a''), allocated = 0, calls = []\<rparr>"

text \<open>The same world with a second account under the same email.\<close>

definition world_twins :: world where
  "world_twins = world0\<lparr>store := [(''u1'', alice), (''u2'', alice_twin)]\<rparr>"

text \<open>The same world with the listing key holding the empty listing.\<close>

definition world_cached :: world where
  "world_cached = world0\<lparr>cache := [''users'' \<mapsto> (''[]'', 3600)]\<rparr>"

text \<open>The world that a first call of \<^verbatim>\<open>getUsers\<close> leaves behind.\<close>

definition world_warm :: world where
  "world_warm = snd (getUsers sample_format sample_stringify sample_parse world0)"

text \<open>A world whose listing key was written by someone else and holds \<^verbatim>\<open>null\<close>.\<close>

definition world_null :: world where
  "world_null = world0\<lparr>cache := [''users'' \<mapsto> (''null'', 3600)]\<rparr>"

definition bob :: User where
  "bob = \<lparr>email = ''bob@example.org'', password = ''builder'', profile = [''name'' \<mapsto> Str ''Bob'']\<rparr>"

definition alice_again :: User where
  "alice_again = \<lparr>email = ''alice@example.org'', password = ''rabbit'', profile = Map.empty\<rparr>"


text \<open>
  A second account, created under an email of its own and then moved by an update to
  the email of the first.
\<close>

definition rival :: User where
  "rival = \<lparr>email = ''rival@example.org'', password = ''looking-glass'', profile = Map.empty\<rparr>"

definition world_rivals :: world where
  "world_rivals =
     snd (updateUserById sample_format ''a'' [''email'' \<mapsto> Str ''alice@example.org'']
            (snd (createUser sample_encrypt rival world0)))"

text \<open>A caller who supplies an \<^verbatim>\<open>id\<close> property of their own, and the world after their creation.\<close>

definition zed :: User where
  "zed = \<lparr>email = ''zed@example.org'', password = ''zzz'', profile = [''id'' \<mapsto> Str ''zz'']\<rparr>"

definition world_zed :: world where
  "world_zed = snd (createUser sample_encrypt zed world0)"

section \<open>Properties\<close>

lemmas client_defs = issue_def users_where_def users_get_def doc_get_def users_doc_def doc_set_def
  doc_update_def doc_delete_def timestamp_now_def redis_get_def redis_set_def redis_del_def

lemmas sample_defs = sample_encrypt_def sample_compare_def sample_format_def sample_token_def
  sample_stringify_def sample_parse_def alice_def alice_twin_def world0_def world_twins_def
  world_cached_def world_null_def bob_def alice_again_def zed_def

text \<open>The loop of \<^verbatim>\<open>getUsers\<close> appends one projected entry per document, in order.\<close>

lemma push_users_map:
  "push_users fmt docs users = users @ map (\<lambda>(i, d). with_id i (fmt (Some d))) docs"
  by (induction docs arbitrary: users) auto

lemma truthy_iff: "truthy c \<longleftrightarrow> (\<exists>s. c = Some s \<and> s \<noteq> [])"
  by (cases c) auto

text \<open>
  After the existence check the update of the store cannot be rejected, so the two
  methods that update return their success response for every id that exists.
\<close>

lemma existing_id_updates_succeed:
  assumes "map_of (store w) userId = Some old"
  shows "fst (updateUserById fmt userId userData w) =
           Inr \<lparr>status = 200, message = ''User updated successfully!'',
                data = Some (Profile ([''id'' \<mapsto> Str userId] ++
                  fmt (Some (old ++ userData(''updatedAt'' \<mapsto> Time (clock w (ticks w)))))))\<rparr>"
    and "fst (changePassword enc userId newPassword w) =
           Inr \<lparr>status = 200, message = ''Password changed successfully!'', data = None\<rparr>"
  using assms
  by (simp_all add: updateUserById_def changePassword_def client_defs Let_def update_conv'
      resp_def resp_data_def with_id_def)

subsection \<open>The listing and its cache\<close>

text \<open>
  What \<^verbatim>\<open>getUsers\<close> does on any content of the key: a non-empty string that
  \<^verbatim>\<open>JSON.parse\<close> accepts is answered with the parsed value, whatever JSON value it is; a
  non-empty string that it rejects makes the fault propagate; nothing and the empty
  string, which the test \<^verbatim>\<open>if (cachedUsers)\<close> takes for false, lead to the store.
\<close>

lemma getUsers_any_content:
  "(fst (redis_get ''users'' w) = Some s \<and> s \<noteq> [] \<and> parse s = Some v \<longrightarrow>
      getUsers fmt stringify parse w =
        (Inr \<lparr>status = 200, message = ''Users retrieved successfully!'', data = Some (Parsed v)\<rparr>,
         w\<lparr>calls := calls w @ [CacheGet ''users'']\<rparr>)) \<and>
   (fst (redis_get ''users'' w) = Some s \<and> s \<noteq> [] \<and> parse s = None \<longrightarrow>
      getUsers fmt stringify parse w =
        (Inl SyntaxError, w\<lparr>calls := calls w @ [CacheGet ''users'']\<rparr>)) \<and>
   (fst (redis_get ''users'' w) = None \<or> fst (redis_get ''users'' w) = Some [] \<longrightarrow>
      getUsers fmt stringify parse w =
        (Inr \<lparr>status = 200, message = ''Users retrieved successfully!'',
              data = Some (Listing (map (\<lambda>(i, d). [''id'' \<mapsto> Str i] ++ fmt (Some d)) (store w)))\<rparr>,
         w\<lparr>cache := (cache w)(''users'' \<mapsto>
                (stringify (map (\<lambda>(i, d). [''id'' \<mapsto> Str i] ++ fmt (Some d)) (store w)), 3600)),
            calls := calls w @ [CacheGet ''users'', StoreGetAll,
                CacheSet ''users''
                  (stringify (map (\<lambda>(i, d). [''id'' \<mapsto> Str i] ++ fmt (Some d)) (store w)))
                  3600]\<rparr>))"
  by (auto simp add: getUsers_def client_defs push_users_map Let_def resp_data_def with_id_def)

text \<open>A world whose key is absent has a well-formed slot, and every method keeps it so.\<close>

lemma slot_ok_absent: "cache w ''users'' = None \<Longrightarrow> slot_ok stringify w"
  by (simp add: slot_ok_def)

lemma slot_ok_preserved:
  assumes "slot_ok stringify w"
  shows "slot_ok stringify (snd (createUser enc u w))"
    and "slot_ok stringify (snd (getUsers fmt stringify parse w))"
    and "slot_ok stringify (snd (login cmp fmt gen c w))"
    and "slot_ok stringify (snd (getUserById fmt userId w))"
    and "slot_ok stringify (snd (updateUserById fmt userId userData w))"
    and "slot_ok stringify (snd (deleteUserById userId w))"
    and "slot_ok stringify (snd (changePassword enc userId newPassword w))"
  using assms
  by (auto simp add: slot_ok_def createUser_def getUsers_def login_def getUserById_def
      updateUserById_def deleteUserById_def changePassword_def client_defs Let_def
      split: option.splits list.splits prod.splits)

text \<open>The sample codec never writes the empty string and reads back what it wrote.\<close>

lemma sample_codec:
  "sample_stringify users \<noteq> []"
  "sample_parse (sample_stringify users) \<noteq> None"
  by (simp_all add: sample_stringify_def sample_parse_def)

text \<open>
  Claim C1. Let the serialization of a listing never be empty and always be accepted by
  \<^verbatim>\<open>JSON.parse\<close>, and let the slot be well-formed. When the cache read of the key
  \<^verbatim>\<open>users\<close> returns a value, \<^verbatim>\<open>getUsers\<close> parses it and returns the parsed value with
  status 200, and the only call it issues is that cache read: the store is not read.
  When the cache read returns nothing, \<^verbatim>\<open>getUsers\<close> reads every document of the store,
  builds the listing of the projected documents with their ids, writes the serialized
  listing to the key with an expiry of 3600 seconds, and returns that listing with
  status 200.
\<close>

theorem getUsers_cache_aside:
  assumes "\<And>users. stringify users \<noteq> []"
    and "\<And>users. parse (stringify users) \<noteq> None"
    and "slot_ok stringify w"
  shows "(\<forall>s. fst (redis_get ''users'' w) = Some s \<longrightarrow>
            (\<exists>v. parse s = Some v \<and>
               getUsers fmt stringify parse w =
                 (Inr \<lparr>status = 200, message = ''Users retrieved successfully!'',
                       data = Some (Parsed v)\<rparr>,
                  w\<lparr>calls := calls w @ [CacheGet ''users'']\<rparr>))) \<and>
         (fst (redis_get ''users'' w) = None \<longrightarrow>
            getUsers fmt stringify parse w =
              (Inr \<lparr>status = 200, message = ''Users retrieved successfully!'',
                    data = Some (Listing
                      (map (\<lambda>(i, d). [''id'' \<mapsto> Str i] ++ fmt (Some d)) (store w)))\<rparr>,
               w\<lparr>cache := (cache w)(''users'' \<mapsto>
                      (stringify (map (\<lambda>(i, d). [''id'' \<mapsto> Str i] ++ fmt (Some d)) (store w)),
                       3600)),
                  calls := calls w @ [CacheGet ''users'', StoreGetAll,
                      CacheSet ''users''
                        (stringify (map (\<lambda>(i, d). [''id'' \<mapsto> Str i] ++ fmt (Some d)) (store w)))
                        3600]\<rparr>))"
proof (intro conjI allI impI)
  fix s
  assume hit: "fst (redis_get ''users'' w) = Some s"
  then obtain ex where slot: "cache w ''users'' = Some (s, ex)"
    by (auto simp add: redis_get_def)
  with assms(3) obtain users where s: "s = stringify users"
    by (auto simp add: slot_ok_def)
  from s assms(1) have "s \<noteq> []" by simp
  moreover from s assms(2) obtain v where "parse s = Some v" by auto
  ultimately show "\<exists>v. parse s = Some v \<and>
      getUsers fmt stringify parse w =
        (Inr \<lparr>status = 200, message = ''Users retrieved successfully!'', data = Some (Parsed v)\<rparr>,
         w\<lparr>calls := calls w @ [CacheGet ''users'']\<rparr>)"
    using hit slot by (simp add: getUsers_def client_defs Let_def resp_data_def)
next
  assume "fst (redis_get ''users'' w) = None"
  then show "getUsers fmt stringify parse w =
      (Inr \<lparr>status = 200, message = ''Users retrieved successfully!'',
            data = Some (Listing
              (map (\<lambda>(i, d). [''id'' \<mapsto> Str i] ++ fmt (Some d)) (store w)))\<rparr>,
       w\<lparr>cache := (cache w)(''users'' \<mapsto>
              (stringify (map (\<lambda>(i, d). [''id'' \<mapsto> Str i] ++ fmt (Some d)) (store w)),
               3600)),
          calls := calls w @ [CacheGet ''users'', StoreGetAll,
              CacheSet ''users''
                (stringify (map (\<lambda>(i, d). [''id'' \<mapsto> Str i] ++ fmt (Some d)) (store w)))
                3600]\<rparr>)"
    by (simp add: getUsers_def client_defs push_users_map Let_def resp_data_def with_id_def)
qed

text \<open>
  The first call in the sample world misses and fills the slot; the second call, in the
  world that the first leaves behind, hits and issues no call but the cache read.
\<close>

theorem getUsers_cache_aside_witness:
  "slot_ok sample_stringify world0 \<and>
   fst (redis_get ''users'' world0) = None \<and>
   fst (getUsers sample_format sample_stringify sample_parse world0) =
     Inr \<lparr>status = 200, message = ''Users retrieved successfully!'',
          data = Some (Listing [[''id'' \<mapsto> Str ''u1'', ''email'' \<mapsto> Str ''alice@example.org'',
                                 ''role'' \<mapsto> Str ''admin'']])\<rparr> \<and>
   calls world_warm = [CacheGet ''users'', StoreGetAll, CacheSet ''users'' ''[{}]'' 3600] \<and>
   cache world_warm ''users'' = Some (''[{}]'', 3600) \<and>
   slot_ok sample_stringify world_warm \<and>
   fst (redis_get ''users'' world_warm) = Some ''[{}]'' \<and>
   fst (getUsers sample_format sample_stringify sample_parse world_warm) =
     Inr \<lparr>status = 200, message = ''Users retrieved successfully!'',
          data = Some (Parsed (JArr [JObj []]))\<rparr> \<and>
   calls (snd (getUsers sample_format sample_stringify sample_parse world_warm)) =
     [CacheGet ''users'', StoreGetAll, CacheSet ''users'' ''[{}]'' 3600, CacheGet ''users'']"
proof -
  have cold: "slot_ok sample_stringify world0"
    by (simp add: slot_ok_def sample_defs)
  have warm: "slot_ok sample_stringify world_warm"
    unfolding world_warm_def by (rule slot_ok_preserved(2) [OF cold])
  have run: "fst (getUsers sample_format sample_stringify sample_parse world0) =
       Inr \<lparr>status = 200, message = ''Users retrieved successfully!'',
            data = Some (Listing [[''id'' \<mapsto> Str ''u1'', ''email'' \<mapsto> Str ''alice@example.org'',
                                   ''role'' \<mapsto> Str ''admin'']])\<rparr> \<and>
     calls world_warm = [CacheGet ''users'', StoreGetAll, CacheSet ''users'' ''[{}]'' 3600] \<and>
     cache world_warm ''users'' = Some (''[{}]'', 3600) \<and>
     fst (getUsers sample_format sample_stringify sample_parse world_warm) =
       Inr \<lparr>status = 200, message = ''Users retrieved successfully!'',
            data = Some (Parsed (JArr [JObj []]))\<rparr> \<and>
     calls (snd (getUsers sample_format sample_stringify sample_parse world_warm)) =
       [CacheGet ''users'', StoreGetAll, CacheSet ''users'' ''[{}]'' 3600, CacheGet ''users'']"
    by (simp add: world_warm_def getUsers_def client_defs push_users.simps Let_def resp_data_def
        with_id_def sample_defs)
  show ?thesis
    using cold warm run
      getUsers_cache_aside [of sample_stringify sample_parse world0 sample_format,
        OF sample_codec(1) sample_codec(2) cold]
      getUsers_cache_aside [of sample_stringify sample_parse world_warm sample_format,
        OF sample_codec(1) sample_codec(2) warm]
    by (simp add: redis_get_def sample_defs)
qed

text \<open>
  Outside the well-formed slot the code does what \<open>getUsers_any_content\<close> says. A key
  that someone else has set to \<^verbatim>\<open>null\<close> is answered with status 200 and the value
  \<^verbatim>\<open>null\<close>, without a read of the store.
\<close>

lemma getUsers_foreign_null:
  "getUsers sample_format sample_stringify sample_parse world_null =
     (Inr \<lparr>status = 200, message = ''Users retrieved successfully!'', data = Some (Parsed JNull)\<rparr>,
      world_null\<lparr>calls := [CacheGet ''users'']\<rparr>)"
  by (simp add: getUsers_def client_defs Let_def resp_data_def sample_defs)

subsection \<open>Deletion\<close>

text \<open>
  Claim C2. When a document with the given id exists, \<^verbatim>\<open>deleteUserById\<close> issues, after
  its read, the delete on the store and then, last, the delete of the cache key
  \<^verbatim>\<open>users\<close>, and returns status 200. When none exists it returns status 404 and issues
  neither: the store and the cache are as before.
\<close>

theorem deleteUserById_invalidates:
  "(map_of (store w) userId \<noteq> None \<longrightarrow>
      fst (deleteUserById userId w) = resp 200 ''User deleted successfully!'' \<and>
      calls (snd (deleteUserById userId w)) =
        calls w @ [StoreGet userId, StoreDelete userId, CacheDel ''users''] \<and>
      store (snd (deleteUserById userId w)) = AList.delete userId (store w) \<and>
      cache (snd (deleteUserById userId w)) = (cache w)(''users'' := None)) \<and>
   (map_of (store w) userId = None \<longrightarrow>
      fst (deleteUserById userId w) = resp 404 ''User not found'' \<and>
      calls (snd (deleteUserById userId w)) = calls w @ [StoreGet userId] \<and>
      store (snd (deleteUserById userId w)) = store w \<and>
      cache (snd (deleteUserById userId w)) = cache w)"
  by (simp add: deleteUserById_def client_defs)

theorem deleteUserById_invalidates_witness:
  "map_of (store world_cached) ''u1'' \<noteq> None \<and>
   status (fst (deleteUserById ''u1'' world_cached)) = 200 \<and>
   calls (snd (deleteUserById ''u1'' world_cached)) =
     [StoreGet ''u1'', StoreDelete ''u1'', CacheDel ''users''] \<and>
   store (snd (deleteUserById ''u1'' world_cached)) = [] \<and>
   cache (snd (deleteUserById ''u1'' world_cached)) ''users'' = None \<and>
   map_of (store world_cached) ''u9'' = None \<and>
   status (fst (deleteUserById ''u9'' world_cached)) = 404 \<and>
   calls (snd (deleteUserById ''u9'' world_cached)) = [StoreGet ''u9''] \<and>
   store (snd (deleteUserById ''u9'' world_cached)) = store world_cached \<and>
   cache (snd (deleteUserById ''u9'' world_cached)) ''users'' = Some (''[]'', 3600)"
  using deleteUserById_invalidates [of world_cached "''u1''"]
    deleteUserById_invalidates [of world_cached "''u9''"]
  by (simp add: sample_defs resp_def AList.delete_eq)

subsection \<open>Login\<close>

text \<open>
  The two ways in which \<^verbatim>\<open>login\<close> rejects: no document has the email, or the first
  document that has it fails the password check.
\<close>

lemma login_rejections:
  "fst (users_where ''email'' (Str (email u)) w) = [] \<Longrightarrow>
     fst (login cmp fmt gen u w) = resp 401 ''Unauthorized''"
  "fst (users_where ''email'' (Str (email u)) w) = (i, d) # rest \<Longrightarrow>
     \<not> cmp (password u) (d ''password'') \<Longrightarrow>
     fst (login cmp fmt gen u w) = resp 401 ''Unauthorized!''"
  by (simp_all add: login_def client_defs Let_def)

text \<open>
  Claim C3 asks that a login with an unknown email and a login with a known email and
  a wrong password return the same status 401 and the same message text. The statuses
  agree; the messages do not. In the sample world the first login answers
  \<^verbatim>\<open>Unauthorized\<close> and the second answers \<^verbatim>\<open>Unauthorized!\<close>.
\<close>

theorem login_unauthorized_texts_differ:
  "fst (login sample_compare sample_format sample_token
          \<lparr>email = ''nobody@example.org'', password = ''rabbit''\<rparr> world0)
     = \<lparr>status = 401, message = ''Unauthorized'', data = None\<rparr> \<and>
   fst (login sample_compare sample_format sample_token
          \<lparr>email = ''alice@example.org'', password = ''rabbit''\<rparr> world0)
     = \<lparr>status = 401, message = ''Unauthorized!'', data = None\<rparr> \<and>
   message (fst (login sample_compare sample_format sample_token
          \<lparr>email = ''nobody@example.org'', password = ''rabbit''\<rparr> world0)) \<noteq>
   message (fst (login sample_compare sample_format sample_token
          \<lparr>email = ''alice@example.org'', password = ''rabbit''\<rparr> world0))"
  by (simp add: login_def client_defs sample_defs resp_def)




text \<open>
  Two accounts under one email arise from the methods themselves, since
  \<^verbatim>\<open>updateUserById\<close> writes an email without the check of \<^verbatim>\<open>createUser\<close>: a second
  account is created under another email and then moved to the email of the first. In
  that world too the password of the second account is answered with 401.
\<close>

lemma login_second_match_arises:
  "map fst (fst (users_where ''email'' (Str ''alice@example.org'') world_rivals)) = [''u1'', ''a''] \<and>
   map_option (\<lambda>d. sample_compare ''looking-glass'' (d ''password''))
     (map_of (store world_rivals) ''a'') = Some True \<and>
   fst (login sample_compare sample_format sample_token
          \<lparr>email = ''alice@example.org'', password = ''looking-glass''\<rparr> world_rivals) =
     \<lparr>status = 401, message = ''Unauthorized!'', data = None\<rparr>"
  by (simp add: world_rivals_def rival_def login_def createUser_def updateUserById_def
      client_defs sample_defs resp_def spread_def Let_def)

text \<open>
  Claim C7. The world after \<^verbatim>\<open>login\<close> is the world before it with one call added, the
  query of the store by the field \<^verbatim>\<open>email\<close>: the store and the cache are unchanged and
  no write and no cache call is issued. When the query returns several documents, the
  response is computed from the first alone; the others do not occur in it.
\<close>

theorem login_reads_once:
  "snd (login cmp fmt gen u w) = issue (StoreQuery ''email'' (Str (email u))) w \<and>
   store (snd (login cmp fmt gen u w)) = store w \<and>
   cache (snd (login cmp fmt gen u w)) = cache w \<and>
   calls (snd (login cmp fmt gen u w)) = calls w @ [StoreQuery ''email'' (Str (email u))] \<and>
   (fst (users_where ''email'' (Str (email u)) w) = (i, d) # rest \<longrightarrow>
      fst (login cmp fmt gen u w) =
        (if cmp (password u) (d ''password'')
         then resp_data 200 ''User login successfully!''
                (LoginData (fmt (Some d)) (gen i (fmt (Some d) ''role'')))
         else resp 401 ''Unauthorized!''))"
  by (simp add: login_def client_defs Let_def split: list.splits)

theorem login_reads_once_witness:
  "fst (users_where ''email'' (Str ''alice@example.org'') world_twins) =
     [(''u1'', alice), (''u2'', alice_twin)] \<and>
   fst (login sample_compare sample_format sample_token
          \<lparr>email = ''alice@example.org'', password = ''looking-glass''\<rparr> world_twins) =
     resp 401 ''Unauthorized!'' \<and>
   calls (snd (login sample_compare sample_format sample_token
          \<lparr>email = ''alice@example.org'', password = ''looking-glass''\<rparr> world_twins)) =
     [StoreQuery ''email'' (Str ''alice@example.org'')]"
  using login_reads_once [of sample_compare sample_format sample_token
      "\<lparr>email = ''alice@example.org'', password = ''looking-glass''\<rparr>" world_twins
      "''u1''" alice "[(''u2'', alice_twin)]"]
  by (simp add: client_defs sample_defs)

subsection \<open>Creation\<close>





subsection \<open>Ids that do not exist\<close>

text \<open>
  Claim C6. For an id under which the store has no document, \<^verbatim>\<open>updateUserById\<close>,
  \<^verbatim>\<open>deleteUserById\<close> and \<^verbatim>\<open>changePassword\<close> each return status 404 with the message
  \<^verbatim>\<open>User not found\<close>, and the world after the call is the world before it with the one
  read of that id added: the store is unchanged and no write, update or delete is issued.
\<close>

theorem missing_id_not_found:
  "map_of (store w) userId = None \<Longrightarrow>
     updateUserById fmt userId userData w =
       (Inr (resp 404 ''User not found''), issue (StoreGet userId) w) \<and>
     deleteUserById userId w = (resp 404 ''User not found'', issue (StoreGet userId) w) \<and>
     changePassword enc userId newPassword w =
       (Inr (resp 404 ''User not found''), issue (StoreGet userId) w) \<and>
     store (issue (StoreGet userId) w) = store w \<and>
     filter is_store_write (calls (issue (StoreGet userId) w)) = filter is_store_write (calls w)"
  by (simp add: updateUserById_def deleteUserById_def changePassword_def client_defs)

theorem missing_id_not_found_witness:
  "map_of (store world0) ''u9'' = None \<and>
   status (projr (fst (updateUserById sample_format ''u9'' [''name'' \<mapsto> Str ''Eve''] world0))) = 404 \<and>
   status (fst (deleteUserById ''u9'' world0)) = 404 \<and>
   status (projr (fst (changePassword sample_encrypt ''u9'' ''hatter'' world0))) = 404 \<and>
   store (snd (updateUserById sample_format ''u9'' [''name'' \<mapsto> Str ''Eve''] world0)) = store world0 \<and>
   store (snd (deleteUserById ''u9'' world0)) = store world0 \<and>
   store (snd (changePassword sample_encrypt ''u9'' ''hatter'' world0)) = store world0"
  using missing_id_not_found [of world0 "''u9''" sample_format "[''name'' \<mapsto> Str ''Eve'']"
      sample_encrypt "''hatter''"]
  by (simp add: client_defs sample_defs resp_def)

subsection \<open>What the mutations do to the cache and to updatedAt\<close>

text \<open>
  Claim C8. \<^verbatim>\<open>createUser\<close>, \<^verbatim>\<open>updateUserById\<close> and \<^verbatim>\<open>changePassword\<close> leave the cache as
  it was and issue no call on the cache client, whatever their arguments and whichever
  branch they take. \<^verbatim>\<open>deleteUserById\<close> on an id that exists issues one call on the cache
  client, the delete of the key \<^verbatim>\<open>users\<close>.
\<close>

theorem only_delete_touches_cache:
  "cache (snd (createUser enc u w)) = cache w \<and>
   filter is_cache_call (calls (snd (createUser enc u w))) = filter is_cache_call (calls w) \<and>
   cache (snd (updateUserById fmt userId userData w)) = cache w \<and>
   filter is_cache_call (calls (snd (updateUserById fmt userId userData w))) =
     filter is_cache_call (calls w) \<and>
   cache (snd (changePassword enc userId newPassword w)) = cache w \<and>
   filter is_cache_call (calls (snd (changePassword enc userId newPassword w))) =
     filter is_cache_call (calls w) \<and>
   (map_of (store w) userId \<noteq> None \<longrightarrow>
      filter is_cache_call (calls (snd (deleteUserById userId w))) =
        filter is_cache_call (calls w) @ [CacheDel ''users''])"
  by (auto simp add: createUser_def updateUserById_def changePassword_def deleteUserById_def
      client_defs Let_def split: option.splits)

theorem only_delete_touches_cache_witness:
  "map_of (store world_cached) ''u1'' \<noteq> None \<and>
   filter is_cache_call (calls (snd (deleteUserById ''u1'' world_cached))) = [CacheDel ''users''] \<and>
   cache (snd (createUser sample_encrypt bob world_cached)) ''users'' = Some (''[]'', 3600) \<and>
   cache (snd (updateUserById sample_format ''u1'' [''name'' \<mapsto> Str ''Eve''] world_cached)) ''users''
     = Some (''[]'', 3600) \<and>
   cache (snd (changePassword sample_encrypt ''u1'' ''hatter'' world_cached)) ''users''
     = Some (''[]'', 3600)"
  using only_delete_touches_cache [of sample_encrypt bob world_cached sample_format "''u1''"
      "[''name'' \<mapsto> Str ''Eve'']" "''hatter''"]
  by (simp add: sample_defs)

text \<open>
  Claim C9. Each mutation of an account document writes a fresh \<^verbatim>\<open>updatedAt\<close>, a reading
  of the timestamp source taken during the call. \<^verbatim>\<open>createUser\<close>, when it creates, stores
  it in the new document. For an id that exists, \<^verbatim>\<open>updateUserById\<close> and
  \<^verbatim>\<open>changePassword\<close> put it into the update they issue, over any \<^verbatim>\<open>updatedAt\<close> the
  caller supplied, and the document has it afterwards.
\<close>

theorem mutations_refresh_updatedAt:
  "(fst (users_where ''email'' (Str (email u)) w) = [] \<longrightarrow>
      (\<exists>d. calls (snd (createUser enc u w)) =
             calls w @ [StoreQuery ''email'' (Str (email u)), StoreSet (ids w (allocated w)) d] \<and>
           map_of (store (snd (createUser enc u w))) (ids w (allocated w)) = Some d \<and>
           d ''updatedAt'' = Some (Time (clock w (Suc (ticks w)))))) \<and>
   (map_of (store w) userId = Some old \<longrightarrow>
      (\<exists>d. calls (snd (updateUserById fmt userId userData w)) =
             calls w @ [StoreGet userId, StoreUpdate userId d, StoreGet userId] \<and>
           d ''updatedAt'' = Some (Time (clock w (ticks w)))) \<and>
      (\<exists>new. map_of (store (snd (updateUserById fmt userId userData w))) userId = Some new \<and>
           new ''updatedAt'' = Some (Time (clock w (ticks w)))) \<and>
      (\<exists>d. calls (snd (changePassword enc userId newPassword w)) =
             calls w @ [StoreGet userId, StoreUpdate userId d] \<and>
           d ''updatedAt'' = Some (Time (clock w (ticks w)))) \<and>
      (\<exists>new. map_of (store (snd (changePassword enc userId newPassword w))) userId = Some new \<and>
           new ''updatedAt'' = Some (Time (clock w (ticks w)))))"
  by (simp add: createUser_def updateUserById_def changePassword_def client_defs Let_def
      spread_def update_conv')

theorem mutations_refresh_updatedAt_witness:
  "fst (users_where ''email'' (Str (email bob)) world0) = [] \<and>
   map_option (\<lambda>d. d ''updatedAt'') (map_of (store (snd (createUser sample_encrypt bob world0))) ''a'')
     = Some (Some (Time 1001)) \<and>
   map_of (store world0) ''u1'' = Some alice \<and>
   alice ''updatedAt'' = None \<and>
   map_option (\<lambda>d. d ''updatedAt'')
     (map_of (store (snd (updateUserById sample_format ''u1'' [''updatedAt'' \<mapsto> Time 7] world0))) ''u1'')
     = Some (Some (Time 1000)) \<and>
   map_option (\<lambda>d. d ''updatedAt'')
     (map_of (store (snd (changePassword sample_encrypt ''u1'' ''hatter'' world0))) ''u1'')
     = Some (Some (Time 1000))"
  using mutations_refresh_updatedAt [of bob world0 sample_encrypt "''u1''" alice sample_format
      "[''updatedAt'' \<mapsto> Time 7]" "''hatter''"]
  by (auto simp add: client_defs sample_defs)

subsection \<open>Reading one account\<close>

text \<open>
  Claim C10, as the code has it. \<^verbatim>\<open>getUserById\<close> has one response for every id, whether
  a document exists under it or not: status 200, with the payload built as the object
  literal of the supplied id followed by the projection of what the read returned. The
  payload has every property of the projection; its \<^verbatim>\<open>id\<close> is the one of the projection
  where the projection has one, and the supplied id otherwise. The world after the call
  is the world before it with that read added.
\<close>

theorem getUserById_always_ok:
  "getUserById fmt userId w =
     (\<lparr>status = 200, message = ''User retrieved successfully!'',
       data = Some (Profile ([''id'' \<mapsto> Str userId] ++ fmt (map_of (store w) userId)))\<rparr>,
      w\<lparr>calls := calls w @ [StoreGet userId]\<rparr>) \<and>
   ([''id'' \<mapsto> Str userId] ++ fmt (map_of (store w) userId)) ''id'' =
     (case fmt (map_of (store w) userId) ''id'' of
        None \<Rightarrow> Some (Str userId)
      | Some own \<Rightarrow> Some own)"
  by (simp add: getUserById_def client_defs Let_def resp_data_def with_id_def map_add_def
      split: option.splits)

theorem getUserById_always_ok_witness:
  "map_of (store world0) ''u9'' = None \<and>
   getUserById sample_format ''u9'' world0 =
     (\<lparr>status = 200, message = ''User retrieved successfully!'',
       data = Some (Profile [''id'' \<mapsto> Str ''u9''])\<rparr>,
      world0\<lparr>calls := [StoreGet ''u9'']\<rparr>) \<and>
   map_of (store world0) ''u1'' = Some alice \<and>
   fst (getUserById sample_format ''u1'' world0) =
     \<lparr>status = 200, message = ''User retrieved successfully!'',
      data = Some (Profile [''id'' \<mapsto> Str ''u1'', ''email'' \<mapsto> Str ''alice@example.org'',
                            ''role'' \<mapsto> Str ''admin''])\<rparr>"
proof -
  have run: "getUserById sample_format ''u9'' world0 =
       (\<lparr>status = 200, message = ''User retrieved successfully!'',
         data = Some (Profile [''id'' \<mapsto> Str ''u9''])\<rparr>,
        world0\<lparr>calls := [StoreGet ''u9'']\<rparr>) \<and>
     fst (getUserById sample_format ''u1'' world0) =
       \<lparr>status = 200, message = ''User retrieved successfully!'',
        data = Some (Profile [''id'' \<mapsto> Str ''u1'', ''email'' \<mapsto> Str ''alice@example.org'',
                              ''role'' \<mapsto> Str ''admin''])\<rparr>"
    by (simp add: getUserById_def client_defs Let_def resp_data_def with_id_def sample_defs)
  show ?thesis
    using run getUserById_always_ok [of sample_format "''u9''" world0]
      getUserById_always_ok [of sample_format "''u1''" world0]
    by (simp add: sample_defs)
qed

text \<open>
  Claim C10 as stated puts the supplied id into the payload. It fails for a record
  created with an \<^verbatim>\<open>id\<close> property of its own, which \<^verbatim>\<open>createUser\<close> stores like any other
  property: read back under its document id, the payload carries the stored property,
  not the id that was asked for.
\<close>

theorem getUserById_own_id_counterexample:
  "map fst (store world_zed) = [''u1'', ''a''] \<and>
   fst (getUserById sample_format ''a'' world_zed) =
     \<lparr>status = 200, message = ''User retrieved successfully!'',
      data = Some (Profile ([''id'' \<mapsto> Str ''a''] ++ sample_format (map_of (store world_zed) ''a'')))\<rparr> \<and>
   ([''id'' \<mapsto> Str ''a''] ++ sample_format (map_of (store world_zed) ''a'')) ''id'' = Some (Str ''zz'')"
  by (simp add: world_zed_def getUserById_def createUser_def client_defs Let_def resp_data_def
      with_id_def spread_def sample_defs map_add_def)

end
